theory Spec2Isabelle
  imports Complex_Main
begin

section \<open>tagore: the drawing step of \<^verbatim>\<open>src/tagore/main.py\<close>\<close>

text \<open>
  The theory embeds the function \<^verbatim>\<open>draw\<close> and the two tables it reads.

  \<^item> A Python \<^verbatim>\<open>float\<close> is read as the real number it stands for: rounding, infinities
    and NaN are outside the model. The one exception a float operation of \<^verbatim>\<open>draw\<close> can
    raise, the \<^verbatim>\<open>OverflowError\<close> of converting a too large \<^verbatim>\<open>int\<close> operand, is kept.
  \<^item> A character is an Isabelle \<^typ>\<open>char\<close> (a code point below 256).
  \<^item> The builtins \<^verbatim>\<open>int()\<close> and \<^verbatim>\<open>float()\<close> belong to the interpreter and are
    parameters of the model (\<open>None\<close> is \<^verbatim>\<open>ValueError\<close>).
  \<^item> What \<^verbatim>\<open>print\<close> writes is a list of messages, each holding the values its
    f-string interpolates; what is written to the output file is a list of chunks, a
    template text or the markup line of one shape, holding the numbers it interpolates.
\<close>

subsection \<open>Exceptions, tables\<close>

datatype exn = IOError | SystemExit | ValueError | KeyError string | OverflowError

record geom =
  cx :: real
  cy :: real
  ht :: real
  width :: real

definition COORDINATES :: "string \<rightharpoonup> geom" where
  "COORDINATES = map_of
    [(''1'', \<lparr>cx = 128.6, cy = 1.5, ht = 1654.5, width = 118.6\<rparr>),
     (''2'', \<lparr>cx = 301.4, cy = 43.6, ht = 1612.4, width = 118.6\<rparr>),
     (''3'', \<lparr>cx = 477.6, cy = 341.4, ht = 1314.7, width = 118.6\<rparr>),
     (''4'', \<lparr>cx = 655.6, cy = 517.9, ht = 1138.1, width = 118.6\<rparr>),
     (''5'', \<lparr>cx = 835.4, cy = 461, ht = 1195.1, width = 118.6\<rparr>),
     (''6'', \<lparr>cx = 1012.4, cy = 524.2, ht = 1131.8, width = 118.6\<rparr>),
     (''7'', \<lparr>cx = 1198.2, cy = 608.5, ht = 1047.5, width = 118.6\<rparr>),
     (''8'', \<lparr>cx = 1372.9, cy = 692.8, ht = 963.2, width = 118.6\<rparr>),
     (''9'', \<lparr>cx = 1554.5, cy = 724.4, ht = 931.6, width = 118.6\<rparr>),
     (''10'', \<lparr>cx = 1733.8, cy = 766.6, ht = 889.4, width = 118.6\<rparr>),
     (''11'', \<lparr>cx = 1911.5, cy = 766.6, ht = 889.4, width = 118.6\<rparr>),
     (''12'', \<lparr>cx = 2095.6, cy = 769.7, ht = 886.3, width = 118.6\<rparr>),
     (''13'', \<lparr>cx = 129.3, cy = 2068.8, ht = 766.1, width = 118.6\<rparr>),
     (''14'', \<lparr>cx = 301.6, cy = 2121.5, ht = 713.4, width = 118.6\<rparr>),
     (''15'', \<lparr>cx = 477.5, cy = 2153.1, ht = 681.8, width = 118.6\<rparr>),
     (''16'', \<lparr>cx = 656.7, cy = 2232.2, ht = 602.8, width = 118.6\<rparr>),
     (''17'', \<lparr>cx = 841.2, cy = 2290.7, ht = 544.3, width = 118.6\<rparr>),
     (''18'', \<lparr>cx = 1015.7, cy = 2313.9, ht = 521.1, width = 118.6\<rparr>),
     (''19'', \<lparr>cx = 1199.5, cy = 2437.2, ht = 397.8, width = 118.6\<rparr>),
     (''20'', \<lparr>cx = 1374.4, cy = 2416.1, ht = 418.9, width = 118.6\<rparr>),
     (''21'', \<lparr>cx = 1553, cy = 2510.9, ht = 324.1, width = 118.6\<rparr>),
     (''22'', \<lparr>cx = 1736.9, cy = 2489.8, ht = 345.1, width = 118.6\<rparr>),
     (''X'', \<lparr>cx = 1915.7, cy = 1799.21, ht = 1035.4, width = 118.6\<rparr>),
     (''Y'', \<lparr>cx = 2120.9, cy = 2451.6, ht = 382.7, width = 118.6\<rparr>)]"

definition hg37 :: "string \<rightharpoonup> int" where
  "hg37 = map_of
    [(''1'', 249250621), (''2'', 243199373), (''3'', 198022430), (''4'', 191154276),
     (''5'', 180915260), (''6'', 171115067), (''7'', 159138663), (''8'', 146364022),
     (''9'', 141213431), (''10'', 135534747), (''11'', 135006516), (''12'', 133851895),
     (''13'', 115169878), (''14'', 107349540), (''15'', 102531392), (''16'', 90354753),
     (''17'', 81195210), (''18'', 78077248), (''19'', 59128983), (''20'', 63025520),
     (''21'', 48129895), (''22'', 51304566), (''X'', 155270560), (''Y'', 59373566)]"

definition hg38 :: "string \<rightharpoonup> int" where
  "hg38 = map_of
    [(''1'', 248956422), (''2'', 242193529), (''3'', 198295559), (''4'', 190214555),
     (''5'', 181538259), (''6'', 170805979), (''7'', 159345973), (''8'', 145138636),
     (''9'', 138394717), (''10'', 133797422), (''11'', 135086622), (''12'', 133275309),
     (''13'', 114364328), (''14'', 107043718), (''15'', 101991189), (''16'', 90338345),
     (''17'', 83257441), (''18'', 80373285), (''19'', 58617616), (''20'', 64444167),
     (''21'', 46709983), (''22'', 50818468), (''X'', 156040895), (''Y'', 57227415)]"

definition CHROM_SIZES :: "string \<rightharpoonup> (string \<rightharpoonup> int)" where
  "CHROM_SIZES = map_of [(''hg37'', hg37), (''hg38'', hg38)]"

text \<open>Subscripting a dict: a missing key raises \<^verbatim>\<open>KeyError\<close>.\<close>

definition getitem :: "(string \<rightharpoonup> 'v) \<Rightarrow> string \<Rightarrow> exn + 'v" where
  "getitem d k = (case d k of None \<Rightarrow> Inl (KeyError k) | Some v \<Rightarrow> Inr v)"

subsection \<open>The string methods the loop body calls\<close>

text \<open>\<^verbatim>\<open>str.isspace\<close> on one character, for the code points below 256.\<close>

definition isspace :: "char \<Rightarrow> bool" where
  "isspace c = (of_char c \<in> {9, 10, 11, 12, 13, 28, 29, 30, 31, 32, 133, 160 :: nat})"

definition rstrip :: "string \<Rightarrow> string" where
  "rstrip s = rev (dropWhile isspace (rev s))"

definition startswith :: "string \<Rightarrow> string \<Rightarrow> bool" where
  "startswith s p = (take (length p) s = p)"

text \<open>\<^verbatim>\<open>s.split("\t")\<close>: one field more than there are tabs.\<close>

fun split_tab :: "string \<Rightarrow> string list" where
  "split_tab [] = [[]]"
| "split_tab (c # cs) =
     (if c = CHR 0x09 then [] # split_tab cs
      else (case split_tab cs of [] \<Rightarrow> [[c]] | f # fs \<Rightarrow> (c # f) # fs))"

text \<open>
  \<^verbatim>\<open>s.replace(old, "")\<close> for a non-empty \<open>old\<close>: one scan from the left, every
  occurrence met is dropped and the scan goes on behind it.
\<close>

fun remove_all :: "string \<Rightarrow> string \<Rightarrow> string" where
  "remove_all old [] = []"
| "remove_all old (c # cs) =
     (if old \<noteq> [] \<and> startswith (c # cs) old
      then remove_all old (drop (length old - 1) cs)
      else c # remove_all old cs)"

text \<open>
  \<^verbatim>\<open>re.match("^#.{6}", col)\<close>: a \<^verbatim>\<open>#\<close>, then six characters none of which is a
  newline; anything may follow.
\<close>

definition match_color :: "string \<Rightarrow> bool" where
  "match_color col =
     (case col of [] \<Rightarrow> False
      | c # cs \<Rightarrow> c = CHR ''#'' \<and> 6 \<le> length cs \<and> CHR 0x0A \<notin> set (take 6 cs))"

subsection \<open>Numbers\<close>

record runtime =
  py_int :: "string \<Rightarrow> int option"
  py_float :: "string \<Rightarrow> real option"

text \<open>
  An \<^verbatim>\<open>int\<close> operand of a float operation is converted first; the conversion raises
  \<^verbatim>\<open>OverflowError\<close> from \<open>2^1024 - 2^970\<close> on, the first integer that rounds beyond
  the largest double.
\<close>

definition int_to_float :: "int \<Rightarrow> exn + real" where
  "int_to_float n =
     (if 2 ^ 1024 - 2 ^ 970 \<le> \<bar>n\<bar> then Inl OverflowError else Inr (real_of_int n))"

subsection \<open>One entry\<close>

record entry =
  chrm :: string
  start :: int
  stop :: int
  feature :: int
  fsize :: real
  col :: string
  chrcopy :: int

datatype shape =
    Rect real real string real real
  | Circle string real real real
  | Polygon string real real real real real real
  | Line string real real real real

text \<open>
  \<open>Rect x y fill width height\<close>, \<open>Circle fill cx cy r\<close>,
  \<open>Polygon fill x1 y1 x2 y2 x3 y3\<close> and \<open>Line stroke x1 y1 x2 y2\<close>: the arguments in
  the order in which the markup's f-string interpolates them.
\<close>

datatype chunk = Text string | Shape shape

datatype message =
    NotSevenColumns nat
  | SizeUnclear real nat
  | ColorUnclear string nat
  | CopyUnclear int nat
  | FeatureUnclear int
  | ErrorOpeningInput
  | ErrorOpeningOutput
  | CreatedSVG

record state =
  svg_fh :: "chunk list"
  polygons :: "chunk list"
  line_num :: nat
  stdout :: "message list"

definition print :: "message \<Rightarrow> state \<Rightarrow> state" where
  "print m st = st\<lparr>stdout := stdout st @ [m]\<rparr>"

definition svg_write :: "chunk \<Rightarrow> state \<Rightarrow> state" where
  "svg_write c st = st\<lparr>svg_fh := svg_fh st @ [c]\<rparr>"

text \<open>Lines 161 to 167: the seven fields, the conversions in the order of the source.\<close>

definition convert :: "runtime \<Rightarrow> string list \<Rightarrow> exn + entry" where
  "convert rt e =
     (case py_int rt (e ! 1) of None \<Rightarrow> Inl ValueError | Some a \<Rightarrow>
      (case py_int rt (e ! 2) of None \<Rightarrow> Inl ValueError | Some b \<Rightarrow>
       (case py_float rt (e ! 4) of None \<Rightarrow> Inl ValueError | Some s \<Rightarrow>
        (case py_int rt (e ! 3) of None \<Rightarrow> Inl ValueError | Some f \<Rightarrow>
         (case py_int rt (e ! 6) of None \<Rightarrow> Inl ValueError | Some c \<Rightarrow>
            Inr \<lparr>chrm = remove_all ''chr'' (e ! 0), start = a, stop = b, feature = f,
                 fsize = s, col = e ! 5, chrcopy = c\<rparr>)))))"

text \<open>
  The expression \<^verbatim>\<open>pos * COORDINATES[chrm]["ht"] / CHROM_SIZES[parsed_args.build][chrm]\<close>,
  which every branch evaluates for \<open>start\<close> and for \<open>stop\<close>: the left operand of the
  division first, the product included.
\<close>

definition feat_pos :: "string \<Rightarrow> string \<Rightarrow> int \<Rightarrow> exn + real" where
  "feat_pos b c pos =
     (case getitem COORDINATES c of Inl x \<Rightarrow> Inl x | Inr g \<Rightarrow>
      (case int_to_float pos of Inl x \<Rightarrow> Inl x | Inr p \<Rightarrow>
       (case getitem CHROM_SIZES b of Inl x \<Rightarrow> Inl x | Inr sizes \<Rightarrow>
        (case getitem sizes c of Inl x \<Rightarrow> Inl x | Inr n \<Rightarrow>
           Inr (p * ht g / real_of_int n)))))"

text \<open>The first two statements of every branch.\<close>

definition feat_span :: "string \<Rightarrow> entry \<Rightarrow> exn + real \<times> real" where
  "feat_span b r =
     (case feat_pos b (chrm r) (start r) of Inl x \<Rightarrow> Inl x | Inr feat_start \<Rightarrow>
      (case feat_pos b (chrm r) (stop r) of Inl x \<Rightarrow> Inl x | Inr feat_end \<Rightarrow>
         Inr (feat_start, feat_end)))"

text \<open>Lines 188 to 206.\<close>

definition rectangle :: "string \<Rightarrow> entry \<Rightarrow> exn + shape" where
  "rectangle b r =
     (case feat_span b r of Inl x \<Rightarrow> Inl x | Inr (feat_start, feat_end) \<Rightarrow>
      (case getitem COORDINATES (chrm r) of Inl x \<Rightarrow> Inl x | Inr g \<Rightarrow>
        (let w = width g * fsize r / 2;
             x_pos = (if chrcopy r = 1 then cx g - w else cx g);
             y_pos = cy g + feat_start;
             height = feat_end - feat_start
         in Inr (Rect x_pos y_pos (col r) w height))))"

text \<open>Lines 207 to 224.\<close>

definition circle :: "string \<Rightarrow> entry \<Rightarrow> exn + shape" where
  "circle b r =
     (case feat_span b r of Inl x \<Rightarrow> Inl x | Inr (feat_start, feat_end) \<Rightarrow>
      (case getitem COORDINATES (chrm r) of Inl x \<Rightarrow> Inl x | Inr g \<Rightarrow>
        (let radius = width g * fsize r / 4;
             x_pos = (if chrcopy r = 1 then cx g - width g / 4 else cx g + width g / 4);
             y_pos = cy g + (feat_start + feat_end) / 2
         in Inr (Circle (col r) x_pos y_pos radius))))"

text \<open>Lines 225 to 244.\<close>

definition triangle :: "string \<Rightarrow> entry \<Rightarrow> exn + shape" where
  "triangle b r =
     (case feat_span b r of Inl x \<Rightarrow> Inl x | Inr (feat_start, feat_end) \<Rightarrow>
      (case getitem COORDINATES (chrm r) of Inl x \<Rightarrow> Inl x | Inr g \<Rightarrow>
        (let x_pos = (if chrcopy r = 1 then cx g - width g / 2 else cx g + width g / 2);
             sx_pos = (if chrcopy r = 1 then 38.2 * fsize r else - 38.2 * fsize r);
             y_pos = cy g + (feat_start + feat_end) / 2;
             sy_pos = 21.5 * fsize r
         in Inr (Polygon (col r) (x_pos - sx_pos) (y_pos - sy_pos) x_pos y_pos
                   (x_pos - sx_pos) (y_pos + sy_pos)))))"

text \<open>Lines 245 to 267.\<close>

definition line :: "string \<Rightarrow> entry \<Rightarrow> exn + shape" where
  "line b r =
     (case feat_span b r of Inl x \<Rightarrow> Inl x | Inr (y_pos1, y_pos2) \<Rightarrow>
      (case getitem COORDINATES (chrm r) of Inl x \<Rightarrow> Inl x | Inr g \<Rightarrow>
        (let y_pos = (y_pos1 + y_pos2) / 2 + cy g
         in if chrcopy r = 1
            then Inr (Line (col r) (cx g - width g / 2) y_pos (cx g) y_pos)
            else Inr (Line (col r) (cx g) y_pos (cx g + width g / 2) y_pos))))"

text \<open>Lines 168 to 179: the two checks that substitute a default.\<close>

definition check_size :: "entry \<times> state \<Rightarrow> entry \<times> state" where
  "check_size = (\<lambda>(r, st).
     if 0 > fsize r \<and> fsize r > 1
     then (r\<lparr>fsize := 1\<rparr>, print (SizeUnclear (fsize r) (line_num st)) st)
     else (r, st))"

definition check_col :: "entry \<times> state \<Rightarrow> entry \<times> state" where
  "check_col = (\<lambda>(r, st).
     if \<not> match_color (col r)
     then (r\<lparr>col := ''#000000''\<rparr>, print (ColorUnclear (col r) (line_num st)) st)
     else (r, st))"

text \<open>
  Lines 188 to 272, after the counter has advanced: rectangles, circles and lines are
  written to the file at once, a triangle is appended to \<open>polygons\<close>.
\<close>

definition emit :: "string \<Rightarrow> entry \<Rightarrow> state \<Rightarrow> exn \<times> state + state" where
  "emit b r st =
     (if feature r = 0 then
        (case rectangle b r of Inl x \<Rightarrow> Inl (x, st) | Inr s \<Rightarrow> Inr (svg_write (Shape s) st))
      else if feature r = 1 then
        (case circle b r of Inl x \<Rightarrow> Inl (x, st) | Inr s \<Rightarrow> Inr (svg_write (Shape s) st))
      else if feature r = 2 then
        (case triangle b r of Inl x \<Rightarrow> Inl (x, st)
         | Inr s \<Rightarrow> Inr (st\<lparr>polygons := polygons st @ [Shape s]\<rparr>))
      else if feature r = 3 then
        (case line b r of Inl x \<Rightarrow> Inl (x, st) | Inr s \<Rightarrow> Inr (svg_write (Shape s) st))
      else Inr (print (FeatureUnclear (feature r)) st))"

text \<open>
  Lines 180 to 272, on the converted and checked entry: an entry whose copy is neither
  1 nor 2 is reported and left, the counter advanced.
\<close>

definition place :: "string \<Rightarrow> entry \<times> state \<Rightarrow> exn \<times> state + state" where
  "place b = (\<lambda>(r, st).
     if chrcopy r \<noteq> 1 \<and> chrcopy r \<noteq> 2
     then Inr ((print (CopyUnclear (chrcopy r) (line_num st)) st)
                 \<lparr>line_num := line_num st + 1\<rparr>)
     else emit b r (st\<lparr>line_num := line_num st + 1\<rparr>))"

text \<open>
  The loop body, lines 155 to 272. \<open>Inl (x, st)\<close>: the exception \<open>x\<close> leaves the
  loop, \<open>st\<close> is what had been printed and written by then.
\<close>

definition step :: "runtime \<Rightarrow> string \<Rightarrow> string \<Rightarrow> state \<Rightarrow> exn \<times> state + state" where
  "step rt b txt st =
     (if startswith txt ''#'' then Inr st
      else let e = split_tab (rstrip txt) in
        if length e \<noteq> 7
        then Inl (SystemExit, print (NotSevenColumns (line_num st)) st)
        else (case convert rt e of Inl x \<Rightarrow> Inl (x, st)
              | Inr r \<Rightarrow> place b (check_col (check_size (r, st)))))"

fun loop :: "runtime \<Rightarrow> string \<Rightarrow> string list \<Rightarrow> state \<Rightarrow> exn \<times> state + state" where
  "loop rt b [] st = Inr st"
| "loop rt b (txt # rest) st =
     (case step rt b txt st of Inl x \<Rightarrow> Inl x | Inr st' \<Rightarrow> loop rt b rest st')"

subsection \<open>The drawing step\<close>

text \<open>
  The attributes of \<^verbatim>\<open>parsed_args\<close> that \<^verbatim>\<open>draw\<close> reads. The build is read as
  \<^verbatim>\<open>parsed_args.build\<close>; the argument parser of the file defines no such option, so
  the build is what the caller of \<^verbatim>\<open>draw\<close> has put there.
\<close>

record parsed_args =
  input :: string
  prefix :: string
  build :: string
  verbose :: bool

text \<open>
  The files: \<open>readable\<close> gives the lines that iterating over the opened input yields
  (\<open>None\<close>: it cannot be opened), \<open>writable\<close> says whether the output can be opened.
\<close>

record files =
  readable :: "string \<Rightarrow> string list option"
  writable :: "string \<Rightarrow> bool"

definition initial :: "state" where
  "initial = \<lparr>svg_fh = [], polygons = [], line_num = 1, stdout = []\<rparr>"

definition finalize :: "string \<Rightarrow> bool \<Rightarrow> state \<Rightarrow> state" where
  "finalize svg_footer v st =
     (let st1 = svg_write (Text svg_footer) st;
          st2 = st1\<lparr>svg_fh := svg_fh st1 @ polygons st1\<rparr>;
          st3 = svg_write (Text ''</svg>'') st2
      in if v then print CreatedSVG st3 else st3)"

definition draw ::
  "runtime \<Rightarrow> files \<Rightarrow> parsed_args \<Rightarrow> string \<Rightarrow> string \<Rightarrow> exn \<times> state + state" where
  "draw rt fs parsed svg_header svg_footer =
     (case readable fs (input parsed) of
        None \<Rightarrow> Inl (IOError, print ErrorOpeningInput initial)
      | Some rest \<Rightarrow>
         if \<not> writable fs (prefix parsed @ ''.svg'')
         then Inl (IOError, print ErrorOpeningOutput initial)
         else (case loop rt (build parsed) rest (svg_write (Text svg_header) initial) of
                 Inl x \<Rightarrow> Inl x
               | Inr st \<Rightarrow> Inr (finalize svg_footer (verbose parsed) st)))"

subsection \<open>Notions the statements below use\<close>

text \<open>A triangle is the shape whose markup is a \<^verbatim>\<open>polygon\<close> element.\<close>

fun is_triangle :: "chunk \<Rightarrow> bool" where
  "is_triangle (Shape (Polygon f x1 y1 x2 y2 x3 y3)) = True"
| "is_triangle c = False"

text \<open>
  What one input line contributes to the document: the chunks the loop body writes or
  defers when it runs on that line alone (nothing when it raises).
\<close>

definition shapes_of :: "runtime \<Rightarrow> string \<Rightarrow> string \<Rightarrow> chunk list" where
  "shapes_of rt b txt =
     (case step rt b txt initial of Inl x \<Rightarrow> [] | Inr st \<Rightarrow> svg_fh st @ polygons st)"

text \<open>
  The document assembler as the specification words it: header, the base bucket in
  append order, footer, the overlay bucket in append order, the closing tag.
\<close>

definition spec_finalize :: "string \<Rightarrow> string \<Rightarrow> chunk list \<Rightarrow> chunk list \<Rightarrow> chunk list" where
  "spec_finalize header footer base overlay =
     [Text header] @ base @ [Text footer] @ overlay @ [Text ''</svg>'']"

text \<open>
  The coordinate transform as the specification words it:
  \<open>y = origin_y(c) + position * extent_height(c) / total_length(b, c)\<close>.
\<close>

definition spec_y :: "geom \<Rightarrow> int \<Rightarrow> int \<Rightarrow> real" where
  "spec_y g len pos = cy g + real_of_int pos * ht g / real_of_int len"

text \<open>
  The chromosome normalizer as the specification words it: a leading \<^verbatim>\<open>chr\<close> is
  stripped, the rest of the name is kept.
\<close>

definition spec_strip_prefix :: "string \<Rightarrow> string" where
  "spec_strip_prefix s = (if startswith s ''chr'' then drop 3 s else s)"

text \<open>\<open>occurs p s\<close>: the text \<open>p\<close> occurs somewhere in \<open>s\<close>.\<close>

fun occurs :: "string \<Rightarrow> string \<Rightarrow> bool" where
  "occurs p [] = (p = [])"
| "occurs p (c # cs) = (startswith (c # cs) p \<or> occurs p cs)"

text \<open>The document of a run that finished; an aborted run has none.\<close>

definition document :: "exn \<times> state + state \<Rightarrow> chunk list option" where
  "document res = (case res of Inl x \<Rightarrow> None | Inr st \<Rightarrow> Some (svg_fh st))"

subsection \<open>A runtime and inputs for evaluation\<close>

text \<open>
  A runtime to evaluate the model with. \<open>plain_int\<close> and \<open>plain_float\<close> agree with
  \<^verbatim>\<open>int()\<close> and \<^verbatim>\<open>float()\<close> on the plain literals (an optional minus sign, decimal
  digits, for a float an optional point) and on the text \<^verbatim>\<open>abc\<close>, which both reject.
  Texts of the other forms that the interpreter accepts (a plus sign, blanks around the
  number, underscores between digits, an exponent, \<^verbatim>\<open>inf\<close>, \<^verbatim>\<open>nan\<close>) are rejected here;
  none of them is evaluated below.
\<close>

definition digit :: "char \<Rightarrow> nat option" where
  "digit c = (let n = of_char c in if 48 \<le> n \<and> n \<le> (57 :: nat) then Some (n - 48) else None)"

fun digits :: "nat \<Rightarrow> string \<Rightarrow> nat option" where
  "digits a [] = Some a"
| "digits a (c # cs) = (case digit c of None \<Rightarrow> None | Some d \<Rightarrow> digits (10 * a + d) cs)"

definition plain_nat :: "string \<Rightarrow> nat option" where
  "plain_nat s = (if s = [] then None else digits 0 s)"

definition plain_int :: "string \<Rightarrow> int option" where
  "plain_int s =
     (if startswith s ''-'' then map_option (\<lambda>n. - int n) (plain_nat (drop 1 s))
      else map_option int (plain_nat s))"

definition plain_ufloat :: "string \<Rightarrow> real option" where
  "plain_ufloat s =
     (let i = takeWhile (\<lambda>c. c \<noteq> CHR ''.'') s;
          f = drop 1 (dropWhile (\<lambda>c. c \<noteq> CHR ''.'') s)
      in if i = [] \<and> f = [] then None
         else (case digits 0 i of None \<Rightarrow> None | Some a \<Rightarrow>
               (case digits 0 f of None \<Rightarrow> None | Some b \<Rightarrow>
                  Some (real a + real b / 10 ^ length f))))"

definition plain_float :: "string \<Rightarrow> real option" where
  "plain_float s =
     (if startswith s ''-'' then map_option uminus (plain_ufloat (drop 1 s))
      else plain_ufloat s)"

definition plain :: runtime where
  "plain = \<lparr>py_int = plain_int, py_float = plain_float\<rparr>"

text \<open>An input line: the fields joined by tabs, and the newline.\<close>

fun join_tab :: "string list \<Rightarrow> string" where
  "join_tab [] = []"
| "join_tab [f] = f"
| "join_tab (f # fs) = f @ CHR 0x09 # join_tab fs"

definition tsv :: "string list \<Rightarrow> string" where
  "tsv cols = join_tab cols @ [CHR 0x0A]"

text \<open>A file system with one readable input, every output writable.\<close>

definition one_file :: "string \<Rightarrow> string list \<Rightarrow> files" where
  "one_file name rest =
     \<lparr>readable = (\<lambda>p. if p = name then Some rest else None), writable = (\<lambda>p. True)\<rparr>"

text \<open>Sample lines, a converted entry and the shapes they give under build hg37.\<close>

definition line_rect :: string where
  "line_rect = tsv [''1'', ''1000000'', ''2000000'', ''0'', ''1'', ''#FF0000'', ''1'']"

definition line_tri :: string where
  "line_tri = tsv [''chr2'', ''0'', ''1000'', ''2'', ''0.5'', ''#00FF00'', ''2'']"

definition line_copy3 :: string where
  "line_copy3 = tsv [''1'', ''0'', ''1000'', ''0'', ''1'', ''#FF0000'', ''3'']"

definition line_six :: string where
  "line_six = tsv [''1'', ''0'', ''1000'', ''0'', ''1'', ''#FF0000'']"

definition line_abc :: string where
  "line_abc = tsv [''1'', ''abc'', ''1000'', ''0'', ''1'', ''#FF0000'', ''1'']"

definition line_comment :: string where
  "line_comment = ''# chromosome 1'' @ [CHR 0x0A]"

definition line_size2 :: string where
  "line_size2 = tsv [''1'', ''0'', ''1000'', ''0'', ''2'', ''#FF0000'', ''1'']"

definition line_size_neg :: string where
  "line_size_neg = tsv [''1'', ''0'', ''1000'', ''0'', ''-0.5'', ''#FF0000'', ''1'']"

definition line_eight :: string where
  "line_eight = tsv [''1'', ''1000000'', ''2000000'', ''0'', ''1'', ''#FF0000'', ''1'', '''']"

definition line_copy_x :: string where
  "line_copy_x = tsv [''1'', ''0'', ''1000'', ''0'', ''1'', ''#FF0000'', ''x'']"

definition args :: parsed_args where
  "args = \<lparr>input = ''in.bed'', prefix = ''out'', build = ''hg37'', verbose = False\<rparr>"

definition args' :: parsed_args where
  "args' = \<lparr>input = ''copy.bed'', prefix = ''other'', build = ''hg37'', verbose = True\<rparr>"

definition entry_rect :: entry where
  "entry_rect = \<lparr>chrm = ''1'', start = 1000000, stop = 2000000, feature = 0, fsize = 1,
                  col = ''#FF0000'', chrcopy = 1\<rparr>"

definition geom_1 :: geom where
  "geom_1 = \<lparr>cx = 128.6, cy = 1.5, ht = 1654.5, width = 118.6\<rparr>"

definition shape_rect :: shape where
  "shape_rect = Rect 69.3 (1.5 + 1000000 * 1654.5 / 249250621) ''#FF0000'' 59.3
                  (1000000 * 1654.5 / 249250621)"

definition shape_tri :: shape where
  "shape_tri = Polygon ''#00FF00''
                 (301.4 + 59.3 + 19.1) (43.6 + 500 * 1612.4 / 243199373 - 10.75)
                 (301.4 + 59.3) (43.6 + 500 * 1612.4 / 243199373)
                 (301.4 + 59.3 + 19.1) (43.6 + 500 * 1612.4 / 243199373 + 10.75)"

section \<open>Properties\<close>

subsection \<open>The loop and its body\<close>

lemma loop_append:
  "loop rt b (xs @ ys) st =
     (case loop rt b xs st of Inl x \<Rightarrow> Inl x | Inr st' \<Rightarrow> loop rt b ys st')"
  by (induction xs arbitrary: st) (auto split: sum.splits)

lemma step_comment: "startswith txt ''#'' \<Longrightarrow> step rt b txt st = Inr st"
  by (simp add: step_def)

lemma step_columns:
  "\<not> startswith txt ''#'' \<Longrightarrow> length (split_tab (rstrip txt)) \<noteq> 7 \<Longrightarrow>
   step rt b txt st = Inl (SystemExit, print (NotSevenColumns (line_num st)) st)"
  by (simp add: step_def Let_def)

lemma step_convert:
  "\<not> startswith txt ''#'' \<Longrightarrow> length (split_tab (rstrip txt)) = 7 \<Longrightarrow>
   step rt b txt st =
     (case convert rt (split_tab (rstrip txt)) of Inl x \<Rightarrow> Inl (x, st)
      | Inr r \<Rightarrow> place b (check_col (check_size (r, st))))"
  by (simp add: step_def Let_def)

lemma check_size_id: "check_size p = p"
  by (cases p) (auto simp: check_size_def)

lemma convert_ValueError:
  "py_int rt (e ! 1) = None \<or> py_int rt (e ! 2) = None \<or> py_int rt (e ! 3) = None \<or>
   py_int rt (e ! 6) = None \<or> py_float rt (e ! 4) = None \<Longrightarrow> convert rt e = Inl ValueError"
  by (auto simp: convert_def split: option.splits)

lemma convert_Inr:
  "convert rt e = Inr r \<Longrightarrow>
   py_int rt (e ! 1) = Some (start r) \<and> py_int rt (e ! 2) = Some (stop r) \<and>
   py_int rt (e ! 3) = Some (feature r) \<and> py_int rt (e ! 6) = Some (chrcopy r) \<and>
   py_float rt (e ! 4) = Some (fsize r) \<and> chrm r = remove_all ''chr'' (e ! 0) \<and> col r = e ! 5"
  by (auto simp: convert_def split: option.splits)

lemma emit_effect:
  "emit b r st = Inr st' \<Longrightarrow>
   \<exists>ws ps. svg_fh st' = svg_fh st @ ws \<and> polygons st' = polygons st @ ps \<and>
     line_num st' = line_num st \<and>
     (\<forall>st0. \<exists>st0'. emit b r st0 = Inr st0' \<and> svg_fh st0' = svg_fh st0 @ ws \<and> polygons st0' = polygons st0 @ ps) \<and>
     \<not> list_ex is_triangle ws \<and> list_all is_triangle ps"
  by (auto simp: emit_def svg_write_def print_def rectangle_def circle_def line_def triangle_def
      Let_def split: if_splits sum.splits prod.splits)

lemma check_col_effect:
  assumes "check_col (r, st) = (r', st')"
  shows "svg_fh st' = svg_fh st \<and> polygons st' = polygons st \<and> line_num st' = line_num st \<and>
   (\<forall>st0. \<exists>s0. check_col (r, st0) = (r', s0) \<and> svg_fh s0 = svg_fh st0 \<and>
      polygons s0 = polygons st0)"
  using assms by (cases "match_color (col r)") (auto simp: check_col_def print_def)

lemma place_effect:
  "place b (r, st) = Inr st' \<Longrightarrow>
   \<exists>ws ps. svg_fh st' = svg_fh st @ ws \<and> polygons st' = polygons st @ ps \<and>
     (\<forall>st0. \<exists>st0'. place b (r, st0) = Inr st0' \<and> svg_fh st0' = svg_fh st0 @ ws \<and> polygons st0' = polygons st0 @ ps) \<and>
     \<not> list_ex is_triangle ws \<and> list_all is_triangle ps"
proof (cases "chrcopy r \<noteq> 1 \<and> chrcopy r \<noteq> 2")
  case True
  assume "place b (r, st) = Inr st'"
  with True have "svg_fh st' = svg_fh st @ [] \<and> polygons st' = polygons st @ []"
    by (auto simp: place_def print_def)
  moreover from True have "\<forall>st0. \<exists>st0'. place b (r, st0) = Inr st0' \<and> svg_fh st0' = svg_fh st0 @ [] \<and> polygons st0' = polygons st0 @ []"
    by (auto simp: place_def print_def)
  ultimately show ?thesis by (intro exI [of _ "[]"]) simp
next
  case False
  assume "place b (r, st) = Inr st'"
  with False have e: "emit b r (st\<lparr>line_num := line_num st + 1\<rparr>) = Inr st'"
    by (auto simp: place_def)
  from emit_effect [OF e] obtain ws ps where
    a: "svg_fh st' = svg_fh st @ ws" "polygons st' = polygons st @ ps"
    and b: "\<forall>st0. \<exists>st0'. emit b r st0 = Inr st0' \<and> svg_fh st0' = svg_fh st0 @ ws \<and> polygons st0' = polygons st0 @ ps"
    and c: "\<not> list_ex is_triangle ws" "list_all is_triangle ps"
    by auto
  have "\<forall>st0. \<exists>st0'. place b (r, st0) = Inr st0' \<and> svg_fh st0' = svg_fh st0 @ ws \<and> polygons st0' = polygons st0 @ ps"
  proof
    fix st0
    from b obtain s where "emit b r (st0\<lparr>line_num := line_num st0 + 1\<rparr>) = Inr s \<and> svg_fh s = svg_fh (st0\<lparr>line_num := line_num st0 + 1\<rparr>) @ ws \<and> polygons s = polygons (st0\<lparr>line_num := line_num st0 + 1\<rparr>) @ ps"
      by blast
    with False show "\<exists>st0'. place b (r, st0) = Inr st0' \<and> svg_fh st0' = svg_fh st0 @ ws \<and> polygons st0' = polygons st0 @ ps"
      by (auto simp: place_def)
  qed
  with a c show ?thesis by blast
qed

lemma step_effect:
  assumes "step rt b txt st = Inr st'"
  shows "\<exists>ws ps. svg_fh st' = svg_fh st @ ws \<and> polygons st' = polygons st @ ps \<and>
     (\<forall>st0. \<exists>st0'. step rt b txt st0 = Inr st0' \<and> svg_fh st0' = svg_fh st0 @ ws \<and> polygons st0' = polygons st0 @ ps) \<and>
     \<not> list_ex is_triangle ws \<and> list_all is_triangle ps"
proof (cases "startswith txt ''#''")
  case True
  with assms have "st' = st" by (simp add: step_comment)
  with True show ?thesis by (intro exI [of _ "[]"]) (simp add: step_comment)
next
  case nc: False
  show ?thesis
  proof (cases "length (split_tab (rstrip txt)) = 7")
    case False
    with nc assms show ?thesis by (simp add: step_columns)
  next
    case True
    note sc = step_convert [OF nc True]
    from assms obtain r where r: "convert rt (split_tab (rstrip txt)) = Inr r"
      and p: "place b (check_col (r, st)) = Inr st'"
      by (auto simp: sc check_size_id split: sum.splits)
    obtain r' s' where cc: "check_col (r, st) = (r', s')" by (cases "check_col (r, st)")
    note ce = check_col_effect [OF cc]
    from p cc have "place b (r', s') = Inr st'" by simp
    from place_effect [OF this] obtain ws ps where
      a: "svg_fh st' = svg_fh s' @ ws" "polygons st' = polygons s' @ ps"
      and bb: "\<forall>st0. \<exists>st0'. place b (r', st0) = Inr st0' \<and> svg_fh st0' = svg_fh st0 @ ws \<and> polygons st0' = polygons st0 @ ps"
      and c: "\<not> list_ex is_triangle ws" "list_all is_triangle ps"
      by auto
    have "\<forall>st0. \<exists>st0'. step rt b txt st0 = Inr st0' \<and> svg_fh st0' = svg_fh st0 @ ws \<and> polygons st0' = polygons st0 @ ps"
    proof
      fix st0
      from ce obtain s0 where m: "check_col (r, st0) = (r', s0)" "svg_fh s0 = svg_fh st0"
        "polygons s0 = polygons st0"
        by blast
      from bb obtain s where "place b (r', s0) = Inr s \<and> svg_fh s = svg_fh s0 @ ws \<and>
          polygons s = polygons s0 @ ps"
        by blast
      with m r show "\<exists>st0'. step rt b txt st0 = Inr st0' \<and> svg_fh st0' = svg_fh st0 @ ws \<and> polygons st0' = polygons st0 @ ps"
        by (simp add: sc check_size_id)
    qed
    with a c ce show ?thesis by (intro exI [of _ ws] exI [of _ ps]) simp
  qed
qed

lemma filter_split:
  "\<not> list_ex P ws \<Longrightarrow> list_all P ps \<Longrightarrow>
   filter (\<lambda>c. \<not> P c) (ws @ ps) = ws \<and> filter P (ws @ ps) = ps"
  by (induction ws) (auto simp: list_all_iff list_ex_iff filter_id_conv filter_empty_conv)

lemma step_shapes_of:
  assumes "step rt b txt st = Inr st'"
  shows "svg_fh st' = svg_fh st @ filter (\<lambda>c. \<not> is_triangle c) (shapes_of rt b txt) \<and>
         polygons st' = polygons st @ filter is_triangle (shapes_of rt b txt)"
proof -
  from step_effect [OF assms] obtain ws ps where
    a: "svg_fh st' = svg_fh st @ ws" "polygons st' = polygons st @ ps"
    and b: "\<forall>st0. \<exists>st0'. step rt b txt st0 = Inr st0' \<and> svg_fh st0' = svg_fh st0 @ ws \<and> polygons st0' = polygons st0 @ ps"
    and c: "\<not> list_ex is_triangle ws" "list_all is_triangle ps"
    by auto
  from b obtain s where "step rt b txt initial = Inr s" "svg_fh s = svg_fh initial @ ws" "polygons s = polygons initial @ ps"
    by blast
  then have "shapes_of rt b txt = ws @ ps"
    by (simp add: shapes_of_def initial_def)
  with a filter_split [OF c] show ?thesis by simp
qed

lemma loop_shapes:
  "loop rt b rest st = Inr st' \<Longrightarrow>
   svg_fh st' = svg_fh st @ filter (\<lambda>c. \<not> is_triangle c) (concat (map (shapes_of rt b) rest)) \<and>
   polygons st' = polygons st @ filter is_triangle (concat (map (shapes_of rt b) rest))"
proof (induction rest arbitrary: st)
  case Nil
  then show ?case by simp
next
  case (Cons t rest)
  from Cons.prems obtain s where s: "step rt b t st = Inr s" and l: "loop rt b rest s = Inr st'"
    by (auto split: sum.splits)
  from step_shapes_of [OF s] Cons.IH [OF l] show ?case by simp
qed

lemma emit_line_num: "emit b r st = Inr st' \<Longrightarrow> line_num st' = line_num st"
  by (auto simp: emit_def svg_write_def print_def split: if_splits sum.splits)

lemma step_line_num:
  assumes "step rt b t st = Inr st'"
  shows "line_num st' = line_num st + (if startswith t ''#'' then 0 else 1)"
proof (cases "startswith t ''#''")
  case True
  with assms show ?thesis by (simp add: step_comment)
next
  case nc: False
  show ?thesis
  proof (cases "length (split_tab (rstrip t)) = 7")
    case False
    with nc assms show ?thesis by (simp add: step_columns)
  next
    case True
    from assms obtain r where p: "place b (check_col (r, st)) = Inr st'"
      by (auto simp: step_convert [OF nc True] check_size_id split: sum.splits)
    obtain r' s' where cc: "check_col (r, st) = (r', s')" by (cases "check_col (r, st)")
    from check_col_effect [OF cc] have l: "line_num s' = line_num st" by simp
    show ?thesis
    proof (cases "chrcopy r' \<noteq> 1 \<and> chrcopy r' \<noteq> 2")
      case True
      with p cc l nc show ?thesis by (auto simp: place_def print_def)
    next
      case False
      with p cc have "emit b r' (s'\<lparr>line_num := line_num s' + 1\<rparr>) = Inr st'"
        by (auto simp: place_def)
      from emit_line_num [OF this] l nc show ?thesis by simp
    qed
  qed
qed

lemma loop_line_num:
  "loop rt b rest st = Inr st' \<Longrightarrow>
   line_num st' = line_num st + length (filter (\<lambda>t. \<not> startswith t ''#'') rest)"
proof (induction rest arbitrary: st)
  case Nil
  then show ?case by simp
next
  case (Cons t rest)
  from Cons.prems obtain s where s: "step rt b t st = Inr s" and l: "loop rt b rest s = Inr st'"
    by (auto split: sum.splits)
  from step_line_num [OF s] Cons.IH [OF l] show ?case by simp
qed

lemma emit_kind:
  assumes "emit b r st = Inr st'" and "svg_fh st = []" and "polygons st = []"
  shows "(feature r = 2 \<longrightarrow> list_all is_triangle (svg_fh st' @ polygons st')) \<and>
         (feature r \<noteq> 2 \<longrightarrow> \<not> list_ex is_triangle (svg_fh st' @ polygons st'))"
  using assms
  by (auto simp: emit_def svg_write_def print_def rectangle_def circle_def line_def triangle_def
      Let_def split: if_splits sum.splits prod.splits)

lemma check_col_feature:
  "check_col (r, st) = (r', st') \<Longrightarrow> feature r' = feature r \<and> chrcopy r' = chrcopy r \<and>
     svg_fh st' = svg_fh st \<and> polygons st' = polygons st"
  by (auto simp: check_col_def print_def split: if_splits)

lemma shapes_of_kind:
  assumes "\<not> startswith t ''#''" and "length (split_tab (rstrip t)) = 7"
    and "convert rt (split_tab (rstrip t)) = Inr r"
  shows "(feature r = 2 \<longrightarrow> list_all is_triangle (shapes_of rt b t)) \<and>
         (feature r \<noteq> 2 \<longrightarrow> \<not> list_ex is_triangle (shapes_of rt b t))"
proof -
  obtain r' s' where cc: "check_col (r, initial) = (r', s')" by (cases "check_col (r, initial)")
  note cf = check_col_feature [OF cc]
  have st: "step rt b t initial = place b (r', s')"
    using assms(3) cc by (simp add: step_convert [OF assms(1,2)] check_size_id)
  show ?thesis
  proof (cases "step rt b t initial")
    case (Inl x)
    then show ?thesis by (simp add: shapes_of_def)
  next
    case (Inr s)
    show ?thesis
    proof (cases "chrcopy r' \<noteq> 1 \<and> chrcopy r' \<noteq> 2")
      case True
      with Inr st cf show ?thesis
        by (auto simp: shapes_of_def place_def print_def initial_def)
    next
      case False
      with Inr st have e: "emit b r' (s'\<lparr>line_num := line_num s' + 1\<rparr>) = Inr s"
        by (auto simp: place_def)
      from emit_kind [OF e] cf Inr show ?thesis
        by (simp add: shapes_of_def initial_def)
    qed
  qed
qed

lemma feat_pos_ok:
  assumes "COORDINATES c = Some g" "CHROM_SIZES b = Some sizes" "sizes c = Some n"
    and "\<bar>pos\<bar> < 2 ^ 1024 - 2 ^ 970"
  shows "feat_pos b c pos = Inr (spec_y g n pos - cy g)"
  using assms by (simp add: feat_pos_def getitem_def int_to_float_def spec_y_def)

lemma feat_span_ok:
  assumes "COORDINATES (chrm r) = Some g" "CHROM_SIZES b = Some sizes" "sizes (chrm r) = Some n"
    and "\<bar>start r\<bar> < 2 ^ 1024 - 2 ^ 970" "\<bar>stop r\<bar> < 2 ^ 1024 - 2 ^ 970"
  shows "feat_span b r = Inr (spec_y g n (start r) - cy g, spec_y g n (stop r) - cy g)"
  using assms by (simp add: feat_span_def feat_pos_ok)

lemma remove_chr_absent: "\<not> occurs ''chr'' a \<Longrightarrow> remove_all ''chr'' a = a"
  by (induction a) auto

lemma remove_chr_first:
  "\<not> occurs ''chr'' a \<Longrightarrow> remove_all ''chr'' (a @ ''chr'' @ s) = a @ remove_all ''chr'' s"
proof (induction a)
  case Nil
  show ?case by (simp add: startswith_def)
next
  case (Cons c a)
  then have n: "\<not> startswith (c # a) ''chr''" and o: "\<not> occurs ''chr'' a" by auto
  have "\<not> startswith (c # a @ ''chr'' @ s) ''chr''"
  proof (cases a)
    case Nil
    then show ?thesis by (auto simp: startswith_def)
  next
    case (Cons d a')
    note A = Cons
    show ?thesis
    proof (cases a')
      case Nil
      with A show ?thesis by (auto simp: startswith_def)
    next
      case (Cons d' a'')
      with A n show ?thesis by (simp add: startswith_def)
    qed
  qed
  with Cons.IH [OF o] show ?case by simp
qed

subsection \<open>Evaluation of the sample lines\<close>

lemmas plain_defs = plain_def plain_int_def plain_nat_def plain_float_def plain_ufloat_def
  digit_def startswith_def

lemma fields_rect:
  "split_tab (rstrip line_rect) =
     [''1'', ''1000000'', ''2000000'', ''0'', ''1'', ''#FF0000'', ''1'']"
  by (simp add: line_rect_def tsv_def rstrip_def isspace_def)

lemma fields_tri:
  "split_tab (rstrip line_tri) = [''chr2'', ''0'', ''1000'', ''2'', ''0.5'', ''#00FF00'', ''2'']"
  by (simp add: line_tri_def tsv_def rstrip_def isspace_def)

lemma fields_copy3:
  "split_tab (rstrip line_copy3) = [''1'', ''0'', ''1000'', ''0'', ''1'', ''#FF0000'', ''3'']"
  by (simp add: line_copy3_def tsv_def rstrip_def isspace_def)

lemma fields_six:
  "split_tab (rstrip line_six) = [''1'', ''0'', ''1000'', ''0'', ''1'', ''#FF0000'']"
  by (simp add: line_six_def tsv_def rstrip_def isspace_def)

lemma fields_abc:
  "split_tab (rstrip line_abc) = [''1'', ''abc'', ''1000'', ''0'', ''1'', ''#FF0000'', ''1'']"
  by (simp add: line_abc_def tsv_def rstrip_def isspace_def)

lemma fields_size2:
  "split_tab (rstrip line_size2) = [''1'', ''0'', ''1000'', ''0'', ''2'', ''#FF0000'', ''1'']"
  by (simp add: line_size2_def tsv_def rstrip_def isspace_def)

lemma fields_size_neg:
  "split_tab (rstrip line_size_neg) = [''1'', ''0'', ''1000'', ''0'', ''-0.5'', ''#FF0000'', ''1'']"
  by (simp add: line_size_neg_def tsv_def rstrip_def isspace_def)

lemma fields_comment: "split_tab (rstrip line_comment) = [''# chromosome 1'']"
  by (simp add: line_comment_def rstrip_def isspace_def)

lemma not_comment:
  "\<not> startswith line_rect ''#''" "\<not> startswith line_tri ''#''"
  "\<not> startswith line_copy3 ''#''" "\<not> startswith line_six ''#''"
  "\<not> startswith line_abc ''#''" "\<not> startswith line_size2 ''#''"
  "\<not> startswith line_size_neg ''#''"
  by (simp_all add: startswith_def line_rect_def line_tri_def line_copy3_def line_six_def
      line_abc_def line_size2_def line_size_neg_def tsv_def)

lemma is_comment: "startswith line_comment ''#''"
  by (simp add: startswith_def line_comment_def)

lemma convert_rect: "convert plain (split_tab (rstrip line_rect)) = Inr entry_rect"
  by (simp add: fields_rect convert_def plain_defs entry_rect_def)

lemma convert_tri:
  "convert plain (split_tab (rstrip line_tri)) =
     Inr \<lparr>chrm = ''2'', start = 0, stop = 1000, feature = 2, fsize = 1 / 2,
          col = ''#00FF00'', chrcopy = 2\<rparr>"
  by (simp add: fields_tri convert_def plain_defs)

lemma convert_copy3:
  "convert plain (split_tab (rstrip line_copy3)) =
     Inr \<lparr>chrm = ''1'', start = 0, stop = 1000, feature = 0, fsize = 1,
          col = ''#FF0000'', chrcopy = 3\<rparr>"
  by (simp add: fields_copy3 convert_def plain_defs)

lemma convert_size2:
  "convert plain (split_tab (rstrip line_size2)) =
     Inr \<lparr>chrm = ''1'', start = 0, stop = 1000, feature = 0, fsize = 2,
          col = ''#FF0000'', chrcopy = 1\<rparr>"
  by (simp add: fields_size2 convert_def plain_defs)

lemma convert_size_neg:
  "convert plain (split_tab (rstrip line_size_neg)) =
     Inr \<lparr>chrm = ''1'', start = 0, stop = 1000, feature = 0, fsize = - (1 / 2),
          col = ''#FF0000'', chrcopy = 1\<rparr>"
  by (simp add: fields_size_neg convert_def plain_defs)

lemma fields_eight:
  "split_tab (rstrip line_eight) =
     [''1'', ''1000000'', ''2000000'', ''0'', ''1'', ''#FF0000'', ''1'']"
  by (simp add: line_eight_def tsv_def rstrip_def isspace_def)

lemma raw_fields_eight: "length (split_tab line_eight) = 8"
  by (simp add: line_eight_def tsv_def)

lemma fields_copy_x:
  "split_tab (rstrip line_copy_x) = [''1'', ''0'', ''1000'', ''0'', ''1'', ''#FF0000'', ''x'']"
  by (simp add: line_copy_x_def tsv_def rstrip_def isspace_def)

lemma not_comment_more:
  "\<not> startswith line_eight ''#''" "\<not> startswith line_copy_x ''#''"
  by (simp_all add: startswith_def line_eight_def line_copy_x_def tsv_def)

lemma convert_eight: "convert plain (split_tab (rstrip line_eight)) = Inr entry_rect"
  by (simp add: fields_eight convert_def plain_defs entry_rect_def)

lemma convert_copy_x: "convert plain (split_tab (rstrip line_copy_x)) = Inl ValueError"
  by (simp add: fields_copy_x convert_def plain_defs)

lemma tab_1: "COORDINATES ''1'' = Some geom_1"
  by (simp add: COORDINATES_def geom_1_def)

lemma tab_2:
  "COORDINATES ''2'' = Some \<lparr>cx = 301.4, cy = 43.6, ht = 1612.4, width = 118.6\<rparr>"
  by (simp add: COORDINATES_def)

lemma tab_sizes:
  "CHROM_SIZES ''hg37'' = Some hg37" "hg37 ''1'' = Some 249250621"
  "hg37 ''2'' = Some 243199373"
  by (simp_all add: CHROM_SIZES_def hg37_def)

lemmas emit_defs = check_size_id check_col_def match_color_def place_def emit_def
  rectangle_def triangle_def feat_span_def feat_pos_def getitem_def tab_1 geom_1_def tab_2
  tab_sizes int_to_float_def

lemma step_rect:
  "step plain ''hg37'' line_rect st =
     Inr (svg_write (Shape shape_rect) (st\<lparr>line_num := line_num st + 1\<rparr>))"
  by (simp add: step_convert [OF not_comment(1)] fields_rect [THEN arg_cong, of length] convert_rect entry_rect_def
      shape_rect_def emit_defs)

lemma step_tri:
  "step plain ''hg37'' line_tri st =
     Inr (st\<lparr>line_num := line_num st + 1, polygons := polygons st @ [Shape shape_tri]\<rparr>)"
  by (simp add: step_convert [OF not_comment(2)] fields_tri [THEN arg_cong, of length] convert_tri shape_tri_def
      emit_defs)

lemma step_copy3:
  "step plain ''hg37'' line_copy3 st =
     Inr (st\<lparr>line_num := line_num st + 1,
             stdout := stdout st @ [CopyUnclear 3 (line_num st)]\<rparr>)"
  by (simp add: step_convert [OF not_comment(3)] fields_copy3 [THEN arg_cong, of length] convert_copy3 print_def
      emit_defs)


lemma len_rect: "length (split_tab (rstrip line_rect)) = 7"
  by (simp add: fields_rect)

lemma len_tri: "length (split_tab (rstrip line_tri)) = 7"
  by (simp add: fields_tri)

lemma len_copy3: "length (split_tab (rstrip line_copy3)) = 7"
  by (simp add: fields_copy3)

lemma len_abc: "length (split_tab (rstrip line_abc)) = 7"
  by (simp add: fields_abc)

lemma len_size2: "length (split_tab (rstrip line_size2)) = 7"
  by (simp add: fields_size2)

lemma len_size_neg: "length (split_tab (rstrip line_size_neg)) = 7"
  by (simp add: fields_size_neg)

lemma draw_tri_rect:
  "draw plain (one_file (input a) [line_tri, line_rect]) (a\<lparr>build := ''hg37''\<rparr>) h f =
     Inr \<lparr>svg_fh = [Text h, Shape shape_rect, Text f, Shape shape_tri, Text ''</svg>''],
          polygons = [Shape shape_tri], line_num = 3,
          stdout = (if verbose a then [CreatedSVG] else [])\<rparr>"
  by (simp add: draw_def one_file_def step_tri step_rect finalize_def svg_write_def print_def
      initial_def Let_def)

section \<open>The claims\<close>

subsection \<open>C1: draw order\<close>

text \<open>
  C1. In every finalized document all triangles (shape kind 2) come after all
  rectangles, circles and lines, whatever the order of the input: the document is the
  header, the base shapes in input order, the footer, the triangles in input order and
  the closing tag. The second part says which lines give a triangle: those of kind 2.
\<close>

theorem triangles_after_base_shapes:
  assumes "readable fs (input parsed) = Some rest"
    and "draw rt fs parsed svg_header svg_footer = Inr st"
  shows "svg_fh st =
           spec_finalize svg_header svg_footer
             (filter (\<lambda>c. \<not> is_triangle c) (concat (map (shapes_of rt (build parsed)) rest)))
             (filter is_triangle (concat (map (shapes_of rt (build parsed)) rest))) \<and>
         (\<forall>t \<in> set rest. \<forall>r.
            \<not> startswith t ''#'' \<and> length (split_tab (rstrip t)) = 7 \<and>
            convert rt (split_tab (rstrip t)) = Inr r \<longrightarrow>
            (feature r = 2 \<longrightarrow> list_all is_triangle (shapes_of rt (build parsed) t)) \<and>
            (feature r \<noteq> 2 \<longrightarrow> \<not> list_ex is_triangle (shapes_of rt (build parsed) t)))"
proof -
  from assms obtain s
    where l: "loop rt (build parsed) rest (svg_write (Text svg_header) initial) = Inr s"
      and f: "st = finalize svg_footer (verbose parsed) s"
    by (auto simp: draw_def split: if_splits sum.splits)
  from loop_shapes [OF l] f have "svg_fh st =
           spec_finalize svg_header svg_footer
             (filter (\<lambda>c. \<not> is_triangle c) (concat (map (shapes_of rt (build parsed)) rest)))
             (filter is_triangle (concat (map (shapes_of rt (build parsed)) rest)))"
    by (simp add: finalize_def spec_finalize_def svg_write_def print_def initial_def Let_def)
  then show ?thesis using shapes_of_kind by blast
qed

text \<open>A triangle on the first line, a rectangle on the second: the rectangle is written first.\<close>

theorem triangles_after_base_shapes_witness:
  "document (draw plain (one_file ''in.bed'' [line_tri, line_rect]) args ''<svg>'' ''</g>'') =
     Some [Text ''<svg>'', Shape shape_rect, Text ''</g>'', Shape shape_tri, Text ''</svg>''] \<and>
   [Text ''<svg>'', Shape shape_rect, Text ''</g>'', Shape shape_tri, Text ''</svg>''] =
     spec_finalize ''<svg>'' ''</g>''
       (filter (\<lambda>c. \<not> is_triangle c) (concat (map (shapes_of plain ''hg37'') [line_tri, line_rect])))
       (filter is_triangle (concat (map (shapes_of plain ''hg37'') [line_tri, line_rect])))"
proof -
  have r: "readable (one_file ''in.bed'' [line_tri, line_rect]) (input args) =
      Some [line_tri, line_rect]"
    by (simp add: one_file_def args_def)
  have d: "draw plain (one_file ''in.bed'' [line_tri, line_rect]) args ''<svg>'' ''</g>'' =
      Inr \<lparr>svg_fh = [Text ''<svg>'', Shape shape_rect, Text ''</g>'', Shape shape_tri, Text ''</svg>''],
           polygons = [Shape shape_tri], line_num = 3, stdout = []\<rparr>"
    using draw_tri_rect [of args "''<svg>''" "''</g>''"] by (simp add: args_def)
  from triangles_after_base_shapes [OF r d] d show ?thesis
    by (simp add: document_def args_def)
qed

subsection \<open>C2: the coordinate transform\<close>

text \<open>
  C2. For a usable record on chromosome \<open>c\<close> under build \<open>b\<close> (the chromosome is in both
  tables and the positions can be converted), \<open>start\<close> and \<open>stop\<close> are each mapped by
  \<open>y = origin_y(c) + position * extent_height(c) / total_length(b, c)\<close>, and the
  horizontal anchor is \<open>origin_x(c)\<close>: every shape is placed by these three numbers.
\<close>

theorem coordinate_transform:
  assumes "COORDINATES (chrm r) = Some g" and "CHROM_SIZES b = Some sizes"
    and "sizes (chrm r) = Some n"
    and "\<bar>start r\<bar> < 2 ^ 1024 - 2 ^ 970" and "\<bar>stop r\<bar> < 2 ^ 1024 - 2 ^ 970"
    and "y_start = spec_y g n (start r)" and "y_end = spec_y g n (stop r)"
    and "x_center = cx g"
  shows "rectangle b r =
           Inr (Rect (if chrcopy r = 1 then x_center - width g * fsize r / 2 else x_center)
                  y_start (col r) (width g * fsize r / 2) (y_end - y_start)) \<and>
         circle b r =
           Inr (Circle (col r)
                  (if chrcopy r = 1 then x_center - width g / 4 else x_center + width g / 4)
                  ((y_start + y_end) / 2) (width g * fsize r / 4)) \<and>
         triangle b r =
           Inr (if chrcopy r = 1
                then Polygon (col r)
                       (x_center - width g / 2 - 38.2 * fsize r)
                       ((y_start + y_end) / 2 - 21.5 * fsize r)
                       (x_center - width g / 2) ((y_start + y_end) / 2)
                       (x_center - width g / 2 - 38.2 * fsize r)
                       ((y_start + y_end) / 2 + 21.5 * fsize r)
                else Polygon (col r)
                       (x_center + width g / 2 + 38.2 * fsize r)
                       ((y_start + y_end) / 2 - 21.5 * fsize r)
                       (x_center + width g / 2) ((y_start + y_end) / 2)
                       (x_center + width g / 2 + 38.2 * fsize r)
                       ((y_start + y_end) / 2 + 21.5 * fsize r)) \<and>
         line b r =
           Inr (if chrcopy r = 1
                then Line (col r) (x_center - width g / 2) ((y_start + y_end) / 2)
                       x_center ((y_start + y_end) / 2)
                else Line (col r) x_center ((y_start + y_end) / 2)
                       (x_center + width g / 2) ((y_start + y_end) / 2))"
proof -
  note sp = feat_span_ok [OF assms(1-5)]
  have gi: "getitem COORDINATES (chrm r) = Inr g"
    using assms(1) by (simp add: getitem_def)
  have "rectangle b r =
           Inr (Rect (if chrcopy r = 1 then x_center - width g * fsize r / 2 else x_center)
                  y_start (col r) (width g * fsize r / 2) (y_end - y_start))"
    by (simp add: rectangle_def sp gi assms(6-8) Let_def)
  moreover have "circle b r =
           Inr (Circle (col r)
                  (if chrcopy r = 1 then x_center - width g / 4 else x_center + width g / 4)
                  ((y_start + y_end) / 2) (width g * fsize r / 4))"
    by (simp add: circle_def sp gi assms(6-8) Let_def field_simps)
  moreover have "triangle b r =
           Inr (if chrcopy r = 1
                then Polygon (col r)
                       (x_center - width g / 2 - 38.2 * fsize r)
                       ((y_start + y_end) / 2 - 21.5 * fsize r)
                       (x_center - width g / 2) ((y_start + y_end) / 2)
                       (x_center - width g / 2 - 38.2 * fsize r)
                       ((y_start + y_end) / 2 + 21.5 * fsize r)
                else Polygon (col r)
                       (x_center + width g / 2 + 38.2 * fsize r)
                       ((y_start + y_end) / 2 - 21.5 * fsize r)
                       (x_center + width g / 2) ((y_start + y_end) / 2)
                       (x_center + width g / 2 + 38.2 * fsize r)
                       ((y_start + y_end) / 2 + 21.5 * fsize r))"
    by (simp add: triangle_def sp gi assms(6-8) Let_def field_simps)
  moreover have "line b r =
           Inr (if chrcopy r = 1
                then Line (col r) (x_center - width g / 2) ((y_start + y_end) / 2)
                       x_center ((y_start + y_end) / 2)
                else Line (col r) x_center ((y_start + y_end) / 2)
                       (x_center + width g / 2) ((y_start + y_end) / 2))"
    by (simp add: line_def sp gi assms(6-8) Let_def field_simps)
  ultimately show ?thesis by blast
qed

text \<open>
  The record \<open>1 1000000 2000000 0 1 #FF0000 1\<close> under hg37: \<open>y_start\<close> is about 8.138
  and \<open>y_end\<close> about 14.776.
\<close>

theorem coordinate_transform_witness:
  "rectangle ''hg37'' entry_rect =
     Inr (Rect 69.3 (1.5 + 1000000 * 1654.5 / 249250621) ''#FF0000'' 59.3
            ((1.5 + 2000000 * 1654.5 / 249250621) - (1.5 + 1000000 * 1654.5 / 249250621))) \<and>
   line ''hg37'' entry_rect =
     Inr (Line ''#FF0000'' 69.3
            (((1.5 + 1000000 * 1654.5 / 249250621) + (1.5 + 2000000 * 1654.5 / 249250621)) / 2)
            128.6
            (((1.5 + 1000000 * 1654.5 / 249250621) + (1.5 + 2000000 * 1654.5 / 249250621)) / 2))"
proof -
  have c: "COORDINATES (chrm entry_rect) = Some geom_1"
    by (simp add: entry_rect_def tab_1)
  have s: "hg37 (chrm entry_rect) = Some 249250621"
    by (simp add: entry_rect_def tab_sizes)
  have b: "\<bar>start entry_rect\<bar> < 2 ^ 1024 - 2 ^ 970" "\<bar>stop entry_rect\<bar> < 2 ^ 1024 - 2 ^ 970"
    by (simp_all add: entry_rect_def)
  from coordinate_transform [OF c tab_sizes(1) s b refl refl refl] show ?thesis
    by (simp add: spec_y_def entry_rect_def geom_1_def)
qed

subsection \<open>C3: rectangles\<close>



subsection \<open>C4: the size check\<close>

text \<open>
  C4. A relative size outside (0, 1] is to be reported and replaced by 1.0. The condition
  of the source, \<^verbatim>\<open>0 > size > 1\<close>, holds for no number, so the branch that prints
  the message and sets the size to 1 is never taken: the sizes 2 and -0.5 are used as
  they are (rectangle widths 118.6 and -29.65 where size 1 gives 59.3), and nothing is
  printed.
\<close>

theorem size_out_of_range_kept:
  "step plain ''hg37'' line_size2 initial =
     Inr \<lparr>svg_fh = [Shape (Rect 10 1.5 ''#FF0000'' 118.6 (1000 * 1654.5 / 249250621))],
          polygons = [], line_num = 2, stdout = []\<rparr> \<and>
   step plain ''hg37'' line_size_neg initial =
     Inr \<lparr>svg_fh = [Shape (Rect 158.25 1.5 ''#FF0000'' (- 29.65) (1000 * 1654.5 / 249250621))],
          polygons = [], line_num = 2, stdout = []\<rparr>"
  by (simp add: step_convert [OF not_comment(6) len_size2]
      step_convert [OF not_comment(7) len_size_neg] convert_size2 convert_size_neg
      check_col_def match_color_def place_def emit_def rectangle_def feat_span_def
      feat_pos_def getitem_def tab_1 geom_1_def tab_sizes int_to_float_def check_size_def
      svg_write_def initial_def)

subsection \<open>C5: a line without seven fields\<close>

text \<open>
  C5, as stated: every line that is not a comment and does not have exactly 7
  tab-separated fields aborts the run, and no output document is produced. The source
  strips trailing whitespace before it splits (\<^verbatim>\<open>entry.rstrip().split("\t")\<close>), so a
  line of 8 tab-separated fields whose last field is empty (a tab before the newline) is
  taken as a line of 7 fields and drawn: the run finishes with its rectangle. And where
  the run does abort, on a line of 6 fields after a rectangle, the output file has been
  opened and holds the header and that rectangle.
\<close>

theorem wrong_field_count_counterexample:
  "length (split_tab line_eight) = 8 \<and>
   draw plain (one_file ''in.bed'' [line_eight]) args ''<svg>'' ''</g>'' =
     Inr \<lparr>svg_fh = [Text ''<svg>'', Shape shape_rect, Text ''</g>'', Text ''</svg>''],
          polygons = [], line_num = 2, stdout = []\<rparr> \<and>
   length (split_tab line_six) = 6 \<and>
   draw plain (one_file ''in.bed'' [line_rect, line_six, line_tri]) args ''<svg>'' ''</g>'' =
     Inl (SystemExit,
          \<lparr>svg_fh = [Text ''<svg>'', Shape shape_rect], polygons = [], line_num = 2,
           stdout = [NotSevenColumns 2]\<rparr>)"
proof -
  have e: "step plain ''hg37'' line_eight st =
      Inr (svg_write (Shape shape_rect) (st\<lparr>line_num := line_num st + 1\<rparr>))" for st
    by (simp add: step_convert [OF not_comment_more(1)] fields_eight [THEN arg_cong, of length]
        convert_eight entry_rect_def shape_rect_def emit_defs)
  have s: "step plain ''hg37'' line_six st =
      Inl (SystemExit, print (NotSevenColumns (line_num st)) st)" for st
    by (simp add: step_columns [OF not_comment(4)] fields_six)
  have "length (split_tab line_six) = 6"
    by (simp add: line_six_def tsv_def)
  then show ?thesis
    by (simp add: raw_fields_eight draw_def one_file_def args_def e s step_rect finalize_def
        svg_write_def print_def initial_def Let_def)
qed

text \<open>
  C5, amended. When the loop reaches a line that is not a comment and whose text, trailing
  whitespace stripped, does not split into exactly 7 tab-separated fields, the run stops
  there with \<^verbatim>\<open>SystemExit\<close>, having printed the message with the line counter \<open>n\<close>
  (the number of the line among the lines that are not comments). The document is never
  finalized: nothing is written after the abort, and the output file is left holding the
  header and the base shapes of the lines before (no footer, no triangle, no closing tag).
\<close>

theorem wrong_field_count_aborts:
  assumes "\<not> startswith txt ''#''" and "length (split_tab (rstrip txt)) \<noteq> 7"
    and "readable fs (input parsed) = Some (before @ txt # rest)"
    and "writable fs (prefix parsed @ ''.svg'')"
    and "loop rt (build parsed) before (svg_write (Text svg_header) initial) = Inr st"
    and "n = 1 + length (filter (\<lambda>t. \<not> startswith t ''#'') before)"
    and "st' = print (NotSevenColumns n) st"
  shows "step rt (build parsed) txt st = Inl (SystemExit, st') \<and>
         draw rt fs parsed svg_header svg_footer = Inl (SystemExit, st') \<and>
         document (draw rt fs parsed svg_header svg_footer) = None \<and>
         stdout st' = stdout st @ [NotSevenColumns n] \<and>
         svg_fh st' =
           Text svg_header #
           filter (\<lambda>c. \<not> is_triangle c) (concat (map (shapes_of rt (build parsed)) before))"
proof -
  have n: "line_num st = n"
    using loop_line_num [OF assms(5)] assms(6) by (simp add: svg_write_def initial_def)
  show ?thesis
    using assms(1-5,7) loop_shapes [OF assms(5)] n
    by (simp add: draw_def loop_append step_columns document_def print_def svg_write_def
        initial_def)
qed

text \<open>A rectangle, a line of six fields, a triangle: the run stops at the second line.\<close>

theorem wrong_field_count_aborts_witness:
  "length (split_tab (rstrip line_six)) = 6 \<and>
   draw plain (one_file ''in.bed'' [line_rect, line_six, line_tri]) args ''<svg>'' ''</g>'' =
     Inl (SystemExit,
          \<lparr>svg_fh = [Text ''<svg>'', Shape shape_rect], polygons = [], line_num = 2,
           stdout = [NotSevenColumns 2]\<rparr>)"
proof -
  have n: "length (split_tab (rstrip line_six)) \<noteq> 7"
    by (simp add: fields_six)
  have r: "readable (one_file ''in.bed'' [line_rect, line_six, line_tri]) (input args) =
      Some ([line_rect] @ line_six # [line_tri])"
    by (simp add: one_file_def args_def)
  have w: "writable (one_file ''in.bed'' [line_rect, line_six, line_tri])
      (prefix args @ ''.svg'')"
    by (simp add: one_file_def)
  have l: "loop plain (build args) [line_rect] (svg_write (Text ''<svg>'') initial) =
      Inr \<lparr>svg_fh = [Text ''<svg>'', Shape shape_rect], polygons = [], line_num = 2,
           stdout = []\<rparr>"
    by (simp add: args_def step_rect svg_write_def initial_def)
  from wrong_field_count_aborts [OF not_comment(4) n r w l refl refl, of "''</g>''"]
  show ?thesis
    by (simp add: print_def fields_six not_comment)
qed

subsection \<open>C6: a copy that is neither 1 nor 2\<close>

text \<open>
  C6, as stated: a copy field that is not exactly 1 or 2 never halts the run. The copy
  field goes through \<^verbatim>\<open>int()\<close> (line 167) before it is compared (line 180): the copy
  \<^verbatim>\<open>x\<close> raises \<^verbatim>\<open>ValueError\<close>, no message is printed, and the rectangle of the
  next line is not drawn.
\<close>

theorem invalid_copy_counterexample:
  "split_tab (rstrip line_copy_x) ! 6 = ''x'' \<and>
   draw plain (one_file ''in.bed'' [line_copy_x, line_rect]) args ''<svg>'' ''</g>'' =
     Inl (ValueError,
          \<lparr>svg_fh = [Text ''<svg>''], polygons = [], line_num = 1, stdout = []\<rparr>)"
proof -
  have "step plain ''hg37'' line_copy_x st = Inl (ValueError, st)" for st
    by (simp add: step_convert [OF not_comment_more(2)]
        fields_copy_x [THEN arg_cong, of length] convert_copy_x)
  then show ?thesis
    by (simp add: fields_copy_x draw_def one_file_def args_def svg_write_def initial_def)
qed

text \<open>
  C6, amended. A record whose fields all convert and whose copy, as an integer, is
  neither 1 nor 2 is reported (after the colour message, if its colour is reported too),
  writes and defers no shape, advances the line counter by one, and the loop goes on with
  the next line.
\<close>

theorem invalid_copy_skipped:
  assumes "\<not> startswith txt ''#''" and "length (split_tab (rstrip txt)) = 7"
    and "convert rt (split_tab (rstrip txt)) = Inr r"
    and "chrcopy r \<noteq> 1" and "chrcopy r \<noteq> 2"
    and "st' = st\<lparr>line_num := line_num st + 1,
                  stdout := stdout st @
                    (if match_color (col r) then [] else [ColorUnclear (col r) (line_num st)]) @
                    [CopyUnclear (chrcopy r) (line_num st)]\<rparr>"
  shows "step rt b txt st = Inr st' \<and> svg_fh st' = svg_fh st \<and> polygons st' = polygons st \<and>
         line_num st' = line_num st + 1 \<and>
         loop rt b (txt # rest) st = loop rt b rest st'"
proof -
  have "step rt b txt st = Inr st'"
    using assms(3-6)
    by (simp add: step_convert [OF assms(1,2)] check_size_id check_col_def place_def print_def)
  then show ?thesis using assms(6) by simp
qed

text \<open>A line with copy 3, then a rectangle: the rectangle is drawn, as line 2.\<close>

theorem invalid_copy_skipped_witness:
  "step plain ''hg37'' line_copy3 initial =
     Inr \<lparr>svg_fh = [], polygons = [], line_num = 2, stdout = [CopyUnclear 3 1]\<rparr> \<and>
   loop plain ''hg37'' [line_copy3, line_rect] initial =
     Inr \<lparr>svg_fh = [Shape shape_rect], polygons = [], line_num = 3,
          stdout = [CopyUnclear 3 1]\<rparr>"
proof -
  have k: "chrcopy \<lparr>chrm = ''1'', start = 0, stop = 1000, feature = 0, fsize = 1,
      col = ''#FF0000'', chrcopy = 3\<rparr> \<noteq> 1"
    "chrcopy \<lparr>chrm = ''1'', start = 0, stop = 1000, feature = 0, fsize = 1,
      col = ''#FF0000'', chrcopy = 3\<rparr> \<noteq> 2"
    by simp_all
  from invalid_copy_skipped [OF not_comment(3) len_copy3 convert_copy3 k refl,
      of "''hg37''" initial "[line_rect]"]
  show ?thesis
    by (simp add: initial_def match_color_def step_rect svg_write_def)
qed

subsection \<open>C7: the chromosome name\<close>

text \<open>
  C7, as stated: only a leading \<^verbatim>\<open>chr\<close> is stripped and an occurrence elsewhere in
  the name is kept. The source calls \<^verbatim>\<open>chrm.replace("chr", "")\<close>, which drops the
  occurrence inside the name \<^verbatim>\<open>1chr\<close> as well, where stripping the prefix would
  leave the name as it is.
\<close>

theorem chr_inside_counterexample:
  "map_sum id chrm (convert plain [''1chr'', ''0'', ''1000'', ''0'', ''1'', ''#FF0000'', ''1'']) =
     Inr ''1'' \<and>
   remove_all ''chr'' ''1chr'' = ''1'' \<and> spec_strip_prefix ''1chr'' = ''1chr''"
  by (simp add: convert_def plain_defs spec_strip_prefix_def)

text \<open>
  C7, amended. The chromosome of the converted record is the first field with every
  occurrence of \<^verbatim>\<open>chr\<close> removed in one scan from the left: a name without \<^verbatim>\<open>chr\<close>
  is unchanged, and in a name \<open>a @ ''chr'' @ s\<close> whose part \<open>a\<close> (empty for a leading
  prefix) is without \<^verbatim>\<open>chr\<close>, that occurrence is dropped and the scan goes on in \<open>s\<close>.
\<close>

theorem chr_removed_everywhere:
  assumes "convert rt e = Inr r" and "\<not> occurs ''chr'' a"
  shows "(e ! 0 = a \<longrightarrow> chrm r = a) \<and>
         (e ! 0 = a @ ''chr'' @ s \<longrightarrow> chrm r = a @ remove_all ''chr'' s)"
  using convert_Inr [OF assms(1)] remove_chr_absent [OF assms(2)] remove_chr_first [OF assms(2)]
  by simp

text \<open>The names \<^verbatim>\<open>1\<close>, \<^verbatim>\<open>chr2\<close> and \<^verbatim>\<open>1chr\<close>.\<close>

theorem chr_removed_everywhere_witness:
  "map_sum id chrm (convert plain [''1'', ''0'', ''1000'', ''0'', ''1'', ''#FF0000'', ''1'']) =
     Inr ''1'' \<and>
   map_sum id chrm (convert plain [''chr2'', ''0'', ''1000'', ''0'', ''1'', ''#FF0000'', ''1'']) =
     Inr ''2'' \<and>
   map_sum id chrm (convert plain [''1chr'', ''0'', ''1000'', ''0'', ''1'', ''#FF0000'', ''1'']) =
     Inr ''1''"
proof -
  have c1: "convert plain [''1'', ''0'', ''1000'', ''0'', ''1'', ''#FF0000'', ''1''] =
      Inr \<lparr>chrm = ''1'', start = 0, stop = 1000, feature = 0, fsize = 1, col = ''#FF0000'',
           chrcopy = 1\<rparr>"
    by (simp add: convert_def plain_defs)
  have c2: "convert plain [''chr2'', ''0'', ''1000'', ''0'', ''1'', ''#FF0000'', ''1''] =
      Inr \<lparr>chrm = ''2'', start = 0, stop = 1000, feature = 0, fsize = 1, col = ''#FF0000'',
           chrcopy = 1\<rparr>"
    by (simp add: convert_def plain_defs)
  have c3: "convert plain [''1chr'', ''0'', ''1000'', ''0'', ''1'', ''#FF0000'', ''1''] =
      Inr \<lparr>chrm = ''1'', start = 0, stop = 1000, feature = 0, fsize = 1, col = ''#FF0000'',
           chrcopy = 1\<rparr>"
    by (simp add: convert_def plain_defs)
  have o: "\<not> occurs ''chr'' ''1''" "\<not> occurs ''chr'' []"
    by (simp_all add: startswith_def)
  from chr_removed_everywhere [OF c1 o(1), of "[]"]
    chr_removed_everywhere [OF c2 o(2), of "''2''"]
    chr_removed_everywhere [OF c3 o(1), of "[]"]
  show ?thesis
    by (simp add: c1 c2 c3)
qed

subsection \<open>C8: comment lines\<close>

text \<open>
  C8. A line that begins with \<^verbatim>\<open>#\<close> leaves the state as it is: no message, no
  shape, the line counter not advanced, and no field count taken (it ends the run for no
  number of fields); the run over an input is the run over the input without that line.
\<close>

theorem comment_line_skipped:
  assumes "startswith txt ''#''"
  shows "step rt b txt st = Inr st \<and>
         loop rt b (before @ txt # rest) st0 = loop rt b (before @ rest) st0"
  using assms by (auto simp: step_comment loop_append split: sum.splits)

text \<open>A comment of one field between a rectangle and a triangle.\<close>

theorem comment_line_skipped_witness:
  "length (split_tab (rstrip line_comment)) = 1 \<and>
   step plain ''hg37'' line_comment initial = Inr initial \<and>
   loop plain ''hg37'' [line_rect, line_comment, line_tri] initial =
     Inr \<lparr>svg_fh = [Shape shape_rect], polygons = [Shape shape_tri], line_num = 3,
          stdout = []\<rparr>"
  using comment_line_skipped [OF is_comment, of plain "''hg37''" initial "[line_rect]"
      "[line_tri]" initial]
  by (simp add: fields_comment step_rect step_tri svg_write_def initial_def)

subsection \<open>C9: the same input twice\<close>

text \<open>
  C9. Two runs of the drawing step that read the same lines, with the same header and
  footer, the same build and the same interpreter, give the same document (or both
  none), whatever the file names, the verbosity and the rest of the two file systems.
\<close>

theorem same_input_same_document:
  assumes "readable fs1 (input a1) = Some rest" and "readable fs2 (input a2) = Some rest"
    and "writable fs1 (prefix a1 @ ''.svg'')" and "writable fs2 (prefix a2 @ ''.svg'')"
    and "build a1 = build a2"
  shows "document (draw rt fs1 a1 svg_header svg_footer) =
         document (draw rt fs2 a2 svg_header svg_footer)"
  using assms
  by (auto simp: draw_def document_def finalize_def print_def svg_write_def Let_def
      split: sum.splits)

text \<open>Two runs on the same two lines, under other file names and with the message on.\<close>

theorem same_input_same_document_witness:
  "document (draw plain (one_file ''in.bed'' [line_tri, line_rect]) args ''<svg>'' ''</g>'') =
   document (draw plain (one_file ''copy.bed'' [line_tri, line_rect]) args' ''<svg>'' ''</g>'') \<and>
   document (draw plain (one_file ''copy.bed'' [line_tri, line_rect]) args' ''<svg>'' ''</g>'') =
     Some [Text ''<svg>'', Shape shape_rect, Text ''</g>'', Shape shape_tri, Text ''</svg>'']"
proof -
  have r: "readable (one_file ''in.bed'' [line_tri, line_rect]) (input args) =
      Some [line_tri, line_rect]"
    "readable (one_file ''copy.bed'' [line_tri, line_rect]) (input args') =
      Some [line_tri, line_rect]"
    by (simp_all add: one_file_def args_def args'_def)
  have w: "writable (one_file ''in.bed'' [line_tri, line_rect]) (prefix args @ ''.svg'')"
    "writable (one_file ''copy.bed'' [line_tri, line_rect]) (prefix args' @ ''.svg'')"
    by (simp_all add: one_file_def)
  have b: "build args = build args'"
    by (simp add: args_def args'_def)
  have d: "document (draw plain (one_file ''copy.bed'' [line_tri, line_rect]) args'
      ''<svg>'' ''</g>'') =
      Some [Text ''<svg>'', Shape shape_rect, Text ''</g>'', Shape shape_tri, Text ''</svg>'']"
    using draw_tri_rect [of args' "''<svg>''" "''</g>''"]
    by (simp add: args'_def document_def)
  from same_input_same_document [OF r w b, of plain "''<svg>''" "''</g>''"] d
  show ?thesis by simp
qed

subsection \<open>C10: a field that is not a number\<close>

text \<open>
  C10. When the loop reaches a line of seven fields, not a comment, one of whose fields
  start, end, kind or copy \<^verbatim>\<open>int()\<close> rejects, or whose size \<^verbatim>\<open>float()\<close> rejects, the
  \<^verbatim>\<open>ValueError\<close> leaves the loop and the drawing step: nothing is printed or written
  for the line, no later line is read, no document is finalized.
\<close>

theorem malformed_number_aborts:
  assumes "\<not> startswith txt ''#''" and "e = split_tab (rstrip txt)" and "length e = 7"
    and "py_int rt (e ! 1) = None \<or> py_int rt (e ! 2) = None \<or> py_int rt (e ! 3) = None \<or>
         py_int rt (e ! 6) = None \<or> py_float rt (e ! 4) = None"
    and "readable fs (input parsed) = Some (before @ txt # rest)"
    and "writable fs (prefix parsed @ ''.svg'')"
    and "loop rt (build parsed) before (svg_write (Text svg_header) initial) = Inr st"
  shows "step rt (build parsed) txt st = Inl (ValueError, st) \<and>
         draw rt fs parsed svg_header svg_footer = Inl (ValueError, st) \<and>
         document (draw rt fs parsed svg_header svg_footer) = None"
proof -
  have "convert rt (split_tab (rstrip txt)) = Inl ValueError"
    using convert_ValueError [OF assms(4)] assms(2) by simp
  then have "step rt (build parsed) txt st = Inl (ValueError, st)"
    using assms(2,3) by (simp add: step_convert [OF assms(1)])
  then show ?thesis using assms(5-7) by (simp add: draw_def loop_append document_def)
qed

text \<open>A rectangle, a line whose start is \<^verbatim>\<open>abc\<close>, a triangle.\<close>

theorem malformed_number_aborts_witness:
  "py_int plain ''abc'' = None \<and>
   draw plain (one_file ''in.bed'' [line_rect, line_abc, line_tri]) args ''<svg>'' ''</g>'' =
     Inl (ValueError,
          \<lparr>svg_fh = [Text ''<svg>'', Shape shape_rect], polygons = [], line_num = 2,
           stdout = []\<rparr>)"
proof -
  have n: "py_int plain (split_tab (rstrip line_abc) ! 1) = None"
    by (simp add: fields_abc plain_defs)
  then have h: "py_int plain (split_tab (rstrip line_abc) ! 1) = None \<or>
      py_int plain (split_tab (rstrip line_abc) ! 2) = None \<or>
      py_int plain (split_tab (rstrip line_abc) ! 3) = None \<or>
      py_int plain (split_tab (rstrip line_abc) ! 6) = None \<or>
      py_float plain (split_tab (rstrip line_abc) ! 4) = None"
    by simp
  have r: "readable (one_file ''in.bed'' [line_rect, line_abc, line_tri]) (input args) =
      Some ([line_rect] @ line_abc # [line_tri])"
    by (simp add: one_file_def args_def)
  have w: "writable (one_file ''in.bed'' [line_rect, line_abc, line_tri])
      (prefix args @ ''.svg'')"
    by (simp add: one_file_def)
  have l: "loop plain (build args) [line_rect] (svg_write (Text ''<svg>'') initial) =
      Inr \<lparr>svg_fh = [Text ''<svg>'', Shape shape_rect], polygons = [], line_num = 2,
           stdout = []\<rparr>"
    by (simp add: args_def step_rect svg_write_def initial_def)
  from malformed_number_aborts [OF not_comment(5) refl len_abc h r w l, of "''</g>''"] n
  show ?thesis
    by (simp add: fields_abc)
qed

end
